theory Spec2Isabelle
  imports Main "HOL-Library.Multiset" "HOL-Library.Char_ord"
begin

section \<open>Values, rows and the imgdata table\<close>

text \<open>
  The program keeps one SQLite table, \<^verbatim>\<open>imgdata\<close>, whose column set is decided at run
  time (spreadsheet header plus field registry). A stored value is Python's \<^verbatim>\<open>None\<close>
  (SQL NULL), a string or an integer. A fetched row is the named tuple built by
  \<^verbatim>\<open>named_tuples\<close>: the column names paired with the row's values, in column order.
  A call ends early with the Python exception that surfaces. \<open>Unmodelled\<close> is not an
  exception of the program: it marks a call whose effect depends on something outside
  this model (a floating-point number, a name or a column type the SQL engine may read in
  another way), and nothing is said about the store after it.
\<close>

datatype val = Null | Text string | Integer int

datatype py_error =
  IndexError | AttributeError | KeyError | TypeError | ValueError | OverflowError
  | OperationalError | ProgrammingError | FileNotFoundError | Unmodelled

datatype 'a result = Return 'a | Raise py_error

type_synonym row = "(string \<times> val) list"

record db =
  columns :: "(string \<times> string) list"
  rows :: "row list"

text \<open>
  The field registry \<^verbatim>\<open>monexif_fields.yml\<close> is read by \<^verbatim>\<open>field_defs\<close>; the file is
  configuration, so the registry is a parameter here: the fields in file order, each with
  its declared column type and the truth value of \<^verbatim>\<open>field.get("copy")\<close>.
\<close>

record field_def =
  ftype :: string
  fcopy :: bool

type_synonym registry = "(string \<times> field_def) list"

definition has_column :: "db \<Rightarrow> string \<Rightarrow> bool" where
  "has_column con c = (c \<in> set (map fst (columns con)))"

text \<open>\<^verbatim>\<open>getattr(record, name, None)\<close>: the value of a column, \<^verbatim>\<open>None\<close> when the tuple has no such field.\<close>

definition getattr :: "row \<Rightarrow> string \<Rightarrow> val" where
  "getattr r f = (case map_of r f of Some v \<Rightarrow> v | None \<Rightarrow> Null)"

text \<open>\<^verbatim>\<open>record.name\<close>: attribute access, which raises when the tuple has no such field.\<close>

definition attr :: "row \<Rightarrow> string \<Rightarrow> py_error + val" where
  "attr r f = (case map_of r f of Some v \<Rightarrow> Inr v | None \<Rightarrow> Inl AttributeError)"

text \<open>SQL \<^verbatim>\<open>column = ?\<close>: a comparison with NULL is never true.\<close>

definition matches :: "row \<Rightarrow> string \<Rightarrow> val \<Rightarrow> bool" where
  "matches r c v = (v \<noteq> Null \<and> getattr r c = v)"

text \<open>\<^verbatim>\<open>select * from imgdata where c in (?, ?)\<close>, in the order of the table scan.\<close>

definition select_in :: "db \<Rightarrow> string \<Rightarrow> val \<Rightarrow> val \<Rightarrow> py_error + row list" where
  "select_in con c v0 v1 =
     (if has_column con c
      then Inr (filter (\<lambda>r. matches r c v0 \<or> matches r c v1) (rows con))
      else Inl OperationalError)"

text \<open>\<^verbatim>\<open>select * from imgdata where c = ?\<close>.\<close>

definition select_eq :: "db \<Rightarrow> string \<Rightarrow> val \<Rightarrow> py_error + row list" where
  "select_eq con c v =
     (if has_column con c then Inr (filter (\<lambda>r. matches r c v) (rows con))
      else Inl OperationalError)"

text \<open>The assignments of an \<^verbatim>\<open>update ... set f1=?, f2=?\<close> applied to one row.\<close>

definition set_cols :: "(string \<times> val) list \<Rightarrow> row \<Rightarrow> row" where
  "set_cols sets r = map (\<lambda>(k, x). (k, case map_of sets k of Some v \<Rightarrow> v | None \<Rightarrow> x)) r"

text \<open>\<^verbatim>\<open>update imgdata set f1=?, ... where c=?\<close>: every matching row is rewritten; a column
  the table does not have is an error of the statement, and nothing is written then.\<close>

definition update_where :: "db \<Rightarrow> (string \<times> val) list \<Rightarrow> string \<Rightarrow> val \<Rightarrow> py_error + db" where
  "update_where con sets c key =
     (if list_all (has_column con) (map fst sets) \<and> has_column con c
      then Inr (con\<lparr>rows := map (\<lambda>r. if matches r c key then set_cols sets r else r) (rows con)\<rparr>)
      else Inl OperationalError)"

section \<open>Field names of a named tuple\<close>

definition lowercase :: string where
  "lowercase = ''abcdefghijklmnopqrstuvwxyz''"

definition uppercase :: string where
  "uppercase = ''ABCDEFGHIJKLMNOPQRSTUVWXYZ''"

definition decimal_digits :: string where
  "decimal_digits = ''0123456789''"

definition is_ascii :: "char \<Rightarrow> bool" where
  "is_ascii c = (of_char c < (128::nat))"

text \<open>\<^verbatim>\<open>str.isidentifier\<close> on an ASCII string.\<close>

definition isidentifier :: "string \<Rightarrow> bool" where
  "isidentifier s =
     (case s of
        [] \<Rightarrow> False
      | c # cs \<Rightarrow> c \<in> set (lowercase @ uppercase @ ''_'')
                  \<and> list_all (\<lambda>d. d \<in> set (lowercase @ uppercase @ decimal_digits @ ''_'')) cs)"

text \<open>\<^verbatim>\<open>keyword.kwlist\<close>.\<close>

definition kwlist :: "string list" where
  "kwlist = [''False'', ''None'', ''True'', ''and'', ''as'', ''assert'', ''async'', ''await'',
             ''break'', ''class'', ''continue'', ''def'', ''del'', ''elif'', ''else'', ''except'',
             ''finally'', ''for'', ''from'', ''global'', ''if'', ''import'', ''in'', ''is'',
             ''lambda'', ''nonlocal'', ''not'', ''or'', ''pass'', ''raise'', ''return'', ''try'',
             ''while'', ''with'', ''yield'']"

text \<open>What \<^verbatim>\<open>namedtuple("Record", names)\<close> accepts: every name an identifier that is no
  keyword and does not start with an underscore, and no name twice.\<close>

definition namedtuple_ok :: "string list \<Rightarrow> bool" where
  "namedtuple_ok names =
     (list_all (\<lambda>n. isidentifier n \<and> n \<notin> set kwlist \<and> take 1 n \<noteq> ''_'') names
      \<and> distinct names)"

text \<open>\<^verbatim>\<open>named_tuples(cursor)\<close>: the record type is built from the column names of the
  result, before any row is read; \<^verbatim>\<open>namedtuple\<close> raises \<^verbatim>\<open>ValueError\<close> on a name it
  does not accept. (Identifiers outside ASCII are not modelled.)\<close>

definition named_tuples :: "db \<Rightarrow> row list \<Rightarrow> py_error + row list" where
  "named_tuples con cursor =
     (if list_all (list_all is_ascii) (map fst (columns con))
      then (if namedtuple_ok (map fst (columns con)) then Inr cursor else Inl ValueError)
      else Inl Unmodelled)"

section \<open>The grouping engine\<close>


text \<open>The \<^verbatim>\<open>updates\<close> dictionary of one direction of the copy loop.\<close>

definition copy_updates :: "registry \<Rightarrow> row \<Rightarrow> row \<Rightarrow> (string \<times> val) list" where
  "copy_updates reg from to =
     map (\<lambda>(field_name, field). (field_name, getattr from field_name))
       (filter (\<lambda>(field_name, field). fcopy field \<and> getattr to field_name = Null) reg)"

text \<open>One iteration of \<^verbatim>\<open>for from_, to in (0, 1), (1, 0)\<close>.\<close>

definition copy_pass :: "registry \<Rightarrow> db \<Rightarrow> row \<Rightarrow> row \<Rightarrow> py_error + db" where
  "copy_pass reg con from to =
     (let updates = copy_updates reg from to
      in if updates = [] then Inr con
         else update_where con updates ''observation_id'' (getattr to ''observation_id''))"

text \<open>
  \<^verbatim>\<open>set_related\<close>. The result pairs what the call does (returns or raises) with the store
  as the call leaves it; an exception leaves the writes made before it.
\<close>

definition set_related :: "registry \<Rightarrow> db \<Rightarrow> string \<Rightarrow> string \<Rightarrow> unit result \<times> db" where
  "set_related reg con obs_id0 obs_id1 =
     (case select_in con ''observation_id'' (Text obs_id0) (Text obs_id1) of
        Inl e \<Rightarrow> (Raise e, con)
      | Inr cursor \<Rightarrow>
          (case named_tuples con cursor of
             Inl e \<Rightarrow> (Raise e, con)
           | Inr fetched \<Rightarrow>
               (case fetched of
                  [] \<Rightarrow> (Raise IndexError, con)
                | first # _ \<Rightarrow>
                    (let obs = (if getattr first ''observation_id'' \<noteq> Text obs_id0
                                then rev fetched else fetched)
                     in case obs of
                          o0 # o1 # _ \<Rightarrow>
                            (case attr o1 ''group_id'' of
                               Inl e \<Rightarrow> (Raise e, con)
                             | Inr g \<Rightarrow>
                                 (case update_where con [(''group_id'', g)] ''observation_id''
                                         (getattr o0 ''observation_id'') of
                                    Inl e \<Rightarrow> (Raise e, con)
                                  | Inr con1 \<Rightarrow>
                                      (case copy_pass reg con1 o0 o1 of
                                         Inl e \<Rightarrow> (Raise e, con1)
                                       | Inr con2 \<Rightarrow>
                                           (case copy_pass reg con2 o1 o0 of
                                              Inl e \<Rightarrow> (Raise e, con2)
                                            | Inr con3 \<Rightarrow> (Return (), con3)))))
                        | _ \<Rightarrow> (Raise IndexError, con)))))"

section \<open>The SQL engine: names, column types and stored values\<close>

text \<open>
  The statements are built by pasting names into SQL text. A name is followed here when
  it can only be read as that column: lower-case letters, digits and underscores after a
  first letter, and none of the engine's keywords. With such names the engine's
  case-insensitive lookup is plain equality.
\<close>

definition sqlite_keywords :: "string list" where
  "sqlite_keywords =
    [''abort'', ''action'', ''add'', ''after'', ''all'', ''alter'', ''always'',
     ''analyze'', ''and'', ''as'', ''asc'', ''attach'', ''autoincrement'', ''before'',
     ''begin'', ''between'', ''by'', ''cascade'', ''case'', ''cast'', ''check'',
     ''collate'', ''column'', ''commit'', ''conflict'', ''constraint'', ''create'',
     ''cross'', ''current'', ''current_date'', ''current_time'', ''current_timestamp'',
     ''database'', ''default'', ''deferrable'', ''deferred'', ''delete'', ''desc'',
     ''detach'', ''distinct'', ''do'', ''drop'', ''each'', ''else'', ''end'', ''escape'',
     ''except'', ''exclude'', ''exclusive'', ''exists'', ''explain'', ''fail'', ''filter'',
     ''first'', ''following'', ''for'', ''foreign'', ''from'', ''full'', ''generated'',
     ''glob'', ''group'', ''groups'', ''having'', ''if'', ''ignore'', ''immediate'',
     ''in'', ''index'', ''indexed'', ''initially'', ''inner'', ''insert'', ''instead'',
     ''intersect'', ''into'', ''is'', ''isnull'', ''join'', ''key'', ''last'', ''left'',
     ''like'', ''limit'', ''match'', ''materialized'', ''natural'', ''no'', ''not'',
     ''nothing'', ''notnull'', ''null'', ''nulls'', ''of'', ''offset'', ''on'', ''or'',
     ''order'', ''others'', ''outer'', ''over'', ''partition'', ''plan'', ''pragma'',
     ''preceding'', ''primary'', ''query'', ''raise'', ''range'', ''recursive'',
     ''references'', ''regexp'', ''reindex'', ''release'', ''rename'', ''replace'',
     ''restrict'', ''returning'', ''right'', ''rollback'', ''row'', ''rows'',
     ''savepoint'', ''select'', ''set'', ''table'', ''temp'', ''temporary'', ''then'',
     ''ties'', ''to'', ''transaction'', ''trigger'', ''unbounded'', ''union'', ''unique'',
     ''update'', ''using'', ''vacuum'', ''values'', ''view'', ''virtual'', ''when'',
     ''where'', ''window'', ''with'', ''without'']"

definition sql_name :: "string \<Rightarrow> bool" where
  "sql_name s =
     ((case s of
         [] \<Rightarrow> False
       | c # cs \<Rightarrow> c \<in> set lowercase
                   \<and> list_all (\<lambda>d. d \<in> set (lowercase @ decimal_digits @ ''_'')) cs)
      \<and> s \<notin> set sqlite_keywords)"

text \<open>
  A declared column type gives the column its affinity. The type names followed here
  are the plain ones; any other declaration (length arguments, constraints after the
  type) is outside the model.
\<close>

datatype affinity = TextAff | NumericAff | IntegerAff | RealAff | BlobAff

definition upper :: "char \<Rightarrow> char" where
  "upper c = (case map_of (zip lowercase uppercase) c of Some u \<Rightarrow> u | None \<Rightarrow> c)"

definition affinity_of :: "string \<Rightarrow> affinity option" where
  "affinity_of t =
     map_of [(''TEXT'', TextAff), (''INT'', IntegerAff), (''INTEGER'', IntegerAff),
             (''NUMERIC'', NumericAff), (''REAL'', RealAff), (''BLOB'', BlobAff)]
       (map upper t)"

text \<open>The decimal text of an integer, and the integer of a decimal text.\<close>

fun nat_digits :: "nat \<Rightarrow> string" where
  "nat_digits n =
     (if n < 10 then [decimal_digits ! n]
      else nat_digits (n div 10) @ [decimal_digits ! (n mod 10)])"

declare nat_digits.simps [simp del]

definition decimal :: "int \<Rightarrow> string" where
  "decimal n = (if n < 0 then CHR ''-'' # nat_digits (nat (- n)) else nat_digits (nat n))"

definition digit_value :: "char \<Rightarrow> nat" where
  "digit_value c =
     (case map_of (zip decimal_digits [0, 1, 2, 3, 4, 5, 6, 7, 8, 9]) c of
        Some d \<Rightarrow> d
      | None \<Rightarrow> 0)"

definition nat_of_digits :: "string \<Rightarrow> nat" where
  "nat_of_digits ds = foldl (\<lambda>a c. 10 * a + digit_value c) 0 ds"

text \<open>A text of one to eighteen digits, with or without a minus sign: an integer literal
  that fits the engine's 64-bit integers.\<close>

definition plain_integer :: "string \<Rightarrow> bool" where
  "plain_integer s =
     (let ds = (case s of c # cs \<Rightarrow> if c = CHR ''-'' then cs else s | [] \<Rightarrow> s)
      in ds \<noteq> [] \<and> list_all (\<lambda>c. c \<in> set decimal_digits) ds \<and> length ds \<le> 18)"

definition integer_of_text :: "string \<Rightarrow> int" where
  "integer_of_text s =
     (case s of
        c # cs \<Rightarrow> if c = CHR ''-'' then - int (nat_of_digits cs) else int (nat_of_digits s)
      | [] \<Rightarrow> 0)"

text \<open>A text that is certainly no numeric literal: it has no digit, or a character that
  no numeric literal has.\<close>

definition never_numeric :: "string \<Rightarrow> bool" where
  "never_numeric s =
     (if list_ex (\<lambda>c. c \<in> set decimal_digits) s
      then list_ex (\<lambda>c. c \<notin> set (decimal_digits @ ''+-.eE''
                                    @ [CHR '' '', CHR 0x09, CHR 0x0A, CHR 0x0B, CHR 0x0C, CHR 0x0D])) s
      else True)"

text \<open>
  What a column of declared type \<open>t\<close> stores when the value \<open>v\<close> is bound to it. A text
  column stores an integer as its decimal text. A numeric column stores the text of an
  integer literal as that integer and leaves a text that is no number. \<open>None\<close>: the
  stored value is, or may be, a floating-point number, or the type is not followed.
\<close>

definition store_value :: "string \<Rightarrow> val \<Rightarrow> val option" where
  "store_value t v =
     (case affinity_of t of
        None \<Rightarrow> None
      | Some a \<Rightarrow>
          (case v of
             Null \<Rightarrow> Some Null
           | Integer n \<Rightarrow>
               (case a of
                  TextAff \<Rightarrow> Some (Text (decimal n))
                | RealAff \<Rightarrow> None
                | _ \<Rightarrow> Some (Integer n))
           | Text s \<Rightarrow>
               (case a of
                  TextAff \<Rightarrow> Some (Text s)
                | BlobAff \<Rightarrow> Some (Text s)
                | RealAff \<Rightarrow> if never_numeric s then Some (Text s) else None
                | _ \<Rightarrow> if never_numeric s then Some (Text s)
                        else if plain_integer s then Some (Integer (integer_of_text s))
                        else None)))"

text \<open>The declared type of a column.\<close>

definition coltype :: "db \<Rightarrow> string \<Rightarrow> string" where
  "coltype con c = (case map_of (columns con) c of Some t \<Rightarrow> t | None \<Rightarrow> [])"

text \<open>A Python integer is bound only if it fits 64 bits; else \<^verbatim>\<open>OverflowError\<close>.\<close>

definition int64_val :: "val \<Rightarrow> bool" where
  "int64_val v = (case v of Integer n \<Rightarrow> - (2 ^ 63) \<le> n \<and> n < 2 ^ 63 | _ \<Rightarrow> True)"

text \<open>The row a statement stores for the bindings of its named columns: the columns it
  does not name are NULL.\<close>

definition stored_row :: "db \<Rightarrow> (string \<times> val) list \<Rightarrow> row option" where
  "stored_row con bindings =
     those (map (\<lambda>(c, t). map_option (Pair c)
                    (store_value t (case map_of bindings c of Some v \<Rightarrow> v | None \<Rightarrow> Null)))
              (columns con))"

section \<open>Spreadsheet and table\<close>



text \<open>\<^verbatim>\<open>insert into imgdata (f1,...)values (?,...)\<close>: the statement needs its columns to
  exist and one binding per placeholder; each value is stored as its column's type
  stores it, and the columns the statement does not name are NULL. (No caller passes a
  repeated field name.)\<close>

definition insert_row :: "db \<Rightarrow> string list \<Rightarrow> val list \<Rightarrow> py_error + db" where
  "insert_row con flds row_values =
     (if list_all sql_name flds \<and> list_all sql_name (map fst (columns con))
      then (if flds \<noteq> [] \<and> list_all (has_column con) flds
            then (if length row_values = length flds
                  then (if list_all int64_val row_values
                        then (case stored_row con (zip flds row_values) of
                                None \<Rightarrow> Inl Unmodelled
                              | Some r \<Rightarrow> Inr (con\<lparr>rows := rows con @ [r]\<rparr>))
                        else Inl OverflowError)
                  else Inl ProgrammingError)
            else Inl OperationalError)
      else Inl Unmodelled)"












section \<open>Ingestion\<close>

text \<open>
  What the collaborators give for an image file: the last segment of its path, the
  dictionary of \<^verbatim>\<open>read_exif\<close>, the number of bytes and the SHA-256 digest in hex. The
  file system maps a base directory and a relative path to the file there, if it can be
  read. \<^verbatim>\<open>uuid4().hex\<close> is drawn from a sequence of identifiers given as a parameter.
\<close>

record image_file =
  file_name :: string
  file_exif :: "(string \<times> val) list"
  file_bytes :: nat
  file_hash :: string

type_synonym filesystem = "string \<Rightarrow> string \<Rightarrow> image_file option"

text \<open>\<^verbatim>\<open>d[key]\<close>.\<close>

definition subscript :: "(string \<times> val) list \<Rightarrow> string \<Rightarrow> py_error + val" where
  "subscript d k = (case map_of d k of Some v \<Rightarrow> Inr v | None \<Rightarrow> Inl KeyError)"

text \<open>\<^verbatim>\<open>s.replace(old, new, count)\<close> for one-character strings.\<close>

fun replace_char :: "char \<Rightarrow> char \<Rightarrow> nat \<Rightarrow> string \<Rightarrow> string" where
  "replace_char old new 0 s = s"
| "replace_char old new (Suc n) [] = []"
| "replace_char old new (Suc n) (c # cs) =
     (if c = old then new # replace_char old new n cs
      else c # replace_char old new (Suc n) cs)"

text \<open>The \<^verbatim>\<open>row\<close> dictionary of one new image; the two identifiers are drawn in the
  order observation id, group id.\<close>

definition image_row :: "filesystem \<Rightarrow> (nat \<Rightarrow> string) \<Rightarrow> string \<Rightarrow> string \<Rightarrow> py_error + row" where
  "image_row fs uuid4 basedir path =
     (case fs basedir path of
        None \<Rightarrow> Inl FileNotFoundError
      | Some img \<Rightarrow>
          (case subscript (file_exif img) ''datetime_original'' of
             Inl e \<Rightarrow> Inl e
           | Inr (Text t) \<Rightarrow>
               (case subscript (file_exif img) ''pixel_x_dimension'' of
                  Inl e \<Rightarrow> Inl e
                | Inr w \<Rightarrow>
                    (case subscript (file_exif img) ''pixel_y_dimension'' of
                       Inl e \<Rightarrow> Inl e
                     | Inr h \<Rightarrow>
                         Inr [(''image_name'', Text (file_name img)),
                              (''image_path'', Text path),
                              (''image_bytes'', Integer (int (file_bytes img))),
                              (''image_time'', Text (replace_char CHR '':'' CHR ''/'' 2 t)),
                              (''image_w'', w),
                              (''image_h'', h),
                              (''image_hash'', Text (file_hash img)),
                              (''observation_id'', Text (uuid4 0)),
                              (''group_id'', Text (uuid4 1)),
                              (''group_number'', Integer 1)]))
           | Inr _ \<Rightarrow> Inl AttributeError))"

text \<open>
  \<^verbatim>\<open>add_images\<close>. The function is declared \<^verbatim>\<open>-> int\<close> and has no \<^verbatim>\<open>return\<close>
  statement: what it returns is \<^verbatim>\<open>None\<close>.
\<close>

fun add_images :: "filesystem \<Rightarrow> (nat \<Rightarrow> string) \<Rightarrow> db \<Rightarrow> string \<Rightarrow> string list
    \<Rightarrow> int option result \<times> db" where
  "add_images fs uuid4 con basedir [] = (Return None, con)"
| "add_images fs uuid4 con basedir (path # paths) =
     (case select_eq con ''image_path'' (Text path) of
        Inl e \<Rightarrow> (Raise e, con)
      | Inr res \<Rightarrow>
          if res \<noteq> [] then add_images fs uuid4 con basedir paths
          else (case image_row fs uuid4 basedir path of
                  Inl e \<Rightarrow> (Raise e, con)
                | Inr row \<Rightarrow>
                    (case insert_row con (map fst row) (map snd row) of
                       Inl e \<Rightarrow> (Raise e, con)
                     | Inr con' \<Rightarrow> add_images fs (\<lambda>i. uuid4 (i + 2)) con' basedir paths)))"

section \<open>Sequences of operations\<close>





text \<open>Every record has a group id.\<close>

definition group_closed :: "db \<Rightarrow> bool" where
  "group_closed con = list_all (\<lambda>r. getattr r ''group_id'' \<noteq> Null) (rows con)"

section \<open>Predicates and example data\<close>

text \<open>How many stored records carry an observation id.\<close>

definition count_obs :: "db \<Rightarrow> string \<Rightarrow> nat" where
  "count_obs con x = length (filter (\<lambda>r. matches r ''observation_id'' (Text x)) (rows con))"


text \<open>Whether the registry flags a field copy-on-merge.\<close>

definition copy_flagged :: "registry \<Rightarrow> string \<Rightarrow> bool" where
  "copy_flagged reg f = list_ex (\<lambda>(field_name, field). field_name = f \<and> fcopy field) reg"


definition names_ok :: "db \<Rightarrow> bool" where
  "names_ok con =
     (list_all (list_all is_ascii) (map fst (columns con)) \<and> namedtuple_ok (map fst (columns con)))"


text \<open>A column declared with a text type, and a store whose every value is as its
  column's type stores it.\<close>

definition text_column :: "db \<Rightarrow> string \<Rightarrow> bool" where
  "text_column con c = (affinity_of (coltype con c) = Some TextAff)"



definition example_A :: row where
  "example_A = [(''observation_id'', Text ''a''), (''group_id'', Text ''g1''),
                (''image_path'', Text ''a.jpg''), (''species'', Null)]"

definition example_B :: row where
  "example_B = [(''observation_id'', Text ''b''), (''group_id'', Text ''g2''),
                (''image_path'', Text ''b.jpg''), (''species'', Text ''owl'')]"

definition example_columns :: "(string \<times> string) list" where
  "example_columns = [(''observation_id'', ''text''), (''group_id'', ''text''),
                      (''image_path'', ''text''), (''species'', ''text'')]"

definition example_db :: db where
  "example_db = \<lparr>columns = example_columns, rows = [example_A, example_B]\<rparr>"



text \<open>An empty table with the columns of an ingested record, one image file, and a
  sequence of identifiers.\<close>

definition ingest_db :: db where
  "ingest_db =
     \<lparr>columns = [(''image_name'', ''text''), (''image_path'', ''text''),
                 (''image_bytes'', ''int''), (''image_time'', ''text''), (''image_w'', ''int''),
                 (''image_h'', ''int''), (''image_hash'', ''text''),
                 (''observation_id'', ''text''), (''group_id'', ''text''),
                 (''group_number'', ''int''), (''species'', ''text'')],
      rows = []\<rparr>"

definition example_fs :: filesystem where
  "example_fs basedir path =
     (if basedir = ''pics'' \<and> path = ''owl.jpg''
      then Some \<lparr>file_name = ''owl.jpg'',
                 file_exif = [(''datetime_original'', Text ''2024:05:01 10:20:30''),
                              (''pixel_x_dimension'', Integer 4000),
                              (''pixel_y_dimension'', Integer 3000)],
                 file_bytes = 1234, file_hash = ''ab12''\<rparr>
      else None)"

definition example_uuid4 :: "nat \<Rightarrow> string" where
  "example_uuid4 n = CHR ''u'' # replicate n CHR ''x''"

definition owl_row :: row where
  "owl_row =
     [(''image_name'', Text ''owl.jpg''), (''image_path'', Text ''owl.jpg''),
      (''image_bytes'', Integer 1234), (''image_time'', Text ''2024/05/01 10:20:30''),
      (''image_w'', Integer 4000), (''image_h'', Integer 3000), (''image_hash'', Text ''ab12''),
      (''observation_id'', Text ''u''), (''group_id'', Text ''ux''),
      (''group_number'', Integer 1), (''species'', Null)]"


text \<open>A store holding one ingested record.\<close>

definition fox_row :: row where
  "fox_row =
     [(''image_name'', Text ''fox.jpg''), (''image_path'', Text ''fox.jpg''),
      (''image_bytes'', Integer 2048), (''image_time'', Text ''2024/04/30 08:00:00''),
      (''image_w'', Integer 4000), (''image_h'', Integer 3000), (''image_hash'', Text ''cd34''),
      (''observation_id'', Text ''o0''), (''group_id'', Text ''g0''),
      (''group_number'', Integer 1), (''species'', Text ''fox'')]"

definition fox_db :: db where
  "fox_db = ingest_db\<lparr>rows := [fox_row]\<rparr>"





definition example_reg :: registry where
  "example_reg =
     [(''observation_id'', \<lparr>ftype = ''text'', fcopy = False\<rparr>),
      (''group_id'', \<lparr>ftype = ''text'', fcopy = False\<rparr>),
      (''image_path'', \<lparr>ftype = ''text'', fcopy = False\<rparr>),
      (''species'', \<lparr>ftype = ''text'', fcopy = True\<rparr>)]"

section \<open>Basic facts\<close>








lemma map_of_copy_updates:
  "map_of (copy_updates reg from to) f =
     (if copy_flagged reg f \<and> getattr to f = Null then Some (getattr from f) else None)"
  by (induction reg) (auto simp: copy_updates_def copy_flagged_def)

lemma keys_copy_updates:
  assumes "k \<in> set (map fst (copy_updates reg from to))"
  shows "copy_flagged reg k \<and> getattr to k = Null"
proof -
  from assms have "map_of (copy_updates reg from to) k \<noteq> None"
    by (simp add: map_of_eq_None_iff)
  then show ?thesis
    by (simp add: map_of_copy_updates split: if_splits)
qed





section \<open>What a merge of two stored records does\<close>

lemma has_column_update_rows [simp]: "has_column (con\<lparr>rows := rs\<rparr>) c = has_column con c"
  by (simp add: has_column_def)







lemma named_tuples_ok: "names_ok con \<Longrightarrow> named_tuples con cursor = Inr cursor"
  by (simp add: named_tuples_def names_ok_def)


section \<open>Field values after a merge\<close>












lemma example_names_ok:
  "names_ok \<lparr>columns = example_columns, rows = rs\<rparr>"
  by (simp add: names_ok_def namedtuple_ok_def isidentifier_def kwlist_def is_ascii_def
      lowercase_def uppercase_def decimal_digits_def example_columns_def)




section \<open>The group id after a merge\<close>



section \<open>The field-copy pass\<close>



section \<open>The direction of the call and the copied value\<close>



section \<open>Repeating a merge\<close>



section \<open>Merging inside one group, and a record with itself\<close>

lemma affinity_text: "affinity_of ''text'' = Some TextAff"
  by (simp add: affinity_of_def upper_def lowercase_def uppercase_def)

lemma affinity_int: "affinity_of ''int'' = Some IntegerAff"
  by (simp add: affinity_of_def upper_def lowercase_def uppercase_def)






section \<open>Grouping with an unknown identifier\<close>

lemma length_filter_or:
  "length (filter (\<lambda>x. P x \<or> Q x) xs) \<le> length (filter P xs) + length (filter Q xs)"
  by (induction xs) auto

lemma text_column_has_column: "text_column con c \<Longrightarrow> has_column con c"
  by (auto simp: text_column_def coltype_def has_column_def affinity_of_def
      split: option.splits dest: map_of_SomeD intro: rev_image_eqI)

text \<open>
  C4. Let the column names be names a named tuple accepts and \<^verbatim>\<open>observation_id\<close> a text
  column. When at least one of the two identifiers is carried by no record (and neither
  is carried by more than one, identifiers being unique), \<^verbatim>\<open>set_related\<close> fails before
  its first write: fewer than two rows are fetched, indexing the fetched list raises
  (Python's \<^verbatim>\<open>IndexError\<close> is the failure the caller sees for a record that is not
  found), and the store is exactly as before.
\<close>

theorem set_related_unknown:
  assumes "names_ok con" and "text_column con ''observation_id''"
    and "count_obs con a = 0 \<or> count_obs con b = 0"
    and "count_obs con a \<le> 1" and "count_obs con b \<le> 1"
  shows "set_related reg con a b = (Raise IndexError, con)"
proof -
  let ?fetched = "filter (\<lambda>r. matches r ''observation_id'' (Text a)
                            \<or> matches r ''observation_id'' (Text b)) (rows con)"
  have "length ?fetched \<le> count_obs con a + count_obs con b"
    unfolding count_obs_def by (rule length_filter_or)
  with assms(3-5) have short: "length ?fetched \<le> 1" by auto
  have sel: "select_in con ''observation_id'' (Text a) (Text b) = Inr ?fetched"
    using text_column_has_column [OF assms(2)] by (simp add: select_in_def)
  show ?thesis
  proof (cases ?fetched)
    case Nil
    with sel show ?thesis by (simp add: set_related_def named_tuples_ok [OF assms(1)])
  next
    case (Cons r rest)
    with short have "rest = []" by simp
    with Cons sel show ?thesis by (simp add: set_related_def named_tuples_ok [OF assms(1)])
  qed
qed

theorem set_related_unknown_witness:
  "names_ok example_db \<and> text_column example_db ''observation_id''
   \<and> count_obs example_db ''zz'' = 0 \<and> count_obs example_db ''a'' = 1
   \<and> set_related example_reg example_db ''a'' ''zz'' = (Raise IndexError, example_db)
   \<and> set_related example_reg example_db ''zz'' ''a'' = (Raise IndexError, example_db)
   \<and> set_related example_reg example_db ''zz'' ''zz'' = (Raise IndexError, example_db)"
proof -
  have n: "names_ok example_db"
    unfolding example_db_def by (rule example_names_ok)
  have h: "text_column example_db ''observation_id''"
    by (simp add: text_column_def coltype_def example_db_def example_columns_def affinity_text)
  have z: "count_obs example_db ''zz'' = 0" and o: "count_obs example_db ''a'' = 1"
    by (simp_all add: count_obs_def example_db_def example_A_def example_B_def matches_def
        getattr_def)
  have d1: "count_obs example_db ''a'' = 0 \<or> count_obs example_db ''zz'' = 0"
    and d2: "count_obs example_db ''zz'' = 0 \<or> count_obs example_db ''a'' = 0"
    and d3: "count_obs example_db ''zz'' = 0 \<or> count_obs example_db ''zz'' = 0"
    using z by simp_all
  have l1: "count_obs example_db ''a'' \<le> 1" and l0: "count_obs example_db ''zz'' \<le> 1"
    using z o by simp_all
  show ?thesis
    using set_related_unknown [OF n h d1 l1 l0, of example_reg]
      set_related_unknown [OF n h d2 l0 l1, of example_reg]
      set_related_unknown [OF n h d3 l0 l0, of example_reg] n h z o
    by simp
qed

section \<open>What ingestion returns\<close>

lemma store_value_text [simp]:
  "store_value ''text'' (Text s) = Some (Text s)"
  "store_value ''text'' Null = Some Null"
  "store_value ''text'' (Integer n) = Some (Text (decimal n))"
  by (simp_all add: store_value_def affinity_text)

lemma store_value_int [simp]:
  "store_value ''int'' (Integer n) = Some (Integer n)"
  "store_value ''int'' Null = Some Null"
  by (simp_all add: store_value_def affinity_int)

lemma ingest_sql_names:
  "sql_name ''image_name''" "sql_name ''image_path''" "sql_name ''image_bytes''"
  "sql_name ''image_time''" "sql_name ''image_w''" "sql_name ''image_h''"
  "sql_name ''image_hash''" "sql_name ''observation_id''" "sql_name ''group_id''"
  "sql_name ''group_number''" "sql_name ''species''"
  by (simp_all add: sql_name_def sqlite_keywords_def lowercase_def decimal_digits_def)

lemma image_row_owl:
  "image_row example_fs example_uuid4 ''pics'' ''owl.jpg''
     = Inr [(''image_name'', Text ''owl.jpg''), (''image_path'', Text ''owl.jpg''),
            (''image_bytes'', Integer 1234), (''image_time'', Text ''2024/05/01 10:20:30''),
            (''image_w'', Integer 4000), (''image_h'', Integer 3000),
            (''image_hash'', Text ''ab12''), (''observation_id'', Text ''u''),
            (''group_id'', Text ''ux''), (''group_number'', Integer 1)]"
  by (simp add: image_row_def example_fs_def example_uuid4_def subscript_def numeral_2_eq_2)

lemma add_images_owl:
  "add_images example_fs example_uuid4 ingest_db ''pics'' [''owl.jpg'']
     = (Return None, ingest_db\<lparr>rows := [owl_row]\<rparr>)"
  by (simp add: image_row_owl select_eq_def insert_row_def stored_row_def int64_val_def
      has_column_def ingest_db_def owl_row_def ingest_sql_names)

lemma add_images_never_counts:
  "fst (add_images fs uuid4 con basedir paths) \<noteq> Return (Some n)"
  by (induction fs uuid4 con basedir paths rule: add_images.induct)
    (auto split: sum.splits)

text \<open>
  C9. \<^verbatim>\<open>add_images\<close> is declared to return an integer, the number of records added,
  but the body never returns a value. On a store without the image, one record is
  inserted and the call returns \<^verbatim>\<open>None\<close>, not 1.
\<close>

theorem add_images_returns_None:
  "fst (add_images example_fs example_uuid4 ingest_db ''pics'' [''owl.jpg'']) = Return None
   \<and> rows ingest_db = []
   \<and> rows (snd (add_images example_fs example_uuid4 ingest_db ''pics'' [''owl.jpg''])) = [owl_row]"
  unfolding add_images_owl by (simp add: ingest_db_def)

section \<open>Export followed by import\<close>

















section \<open>Ungrouping an unknown identifier\<close>



end
